theory Spec2Isabelle
  imports Complex_Main "HOL-Library.Sublist"
begin

section \<open>Content items\<close>

text \<open>
  A JavaScript string is the sequence of its UTF-16 code units; a code unit is a natural
  number here.
\<close>

type_synonym jsstring = "nat list"

text \<open>
  \<^verbatim>\<open>enum PostType\<close> and \<^verbatim>\<open>interface Post\<close>, at the head of \<^verbatim>\<open>src/types.ts\<close>. A field that is
  optional or nullable in the source is an \<open>option\<close>, \<open>None\<close> standing for both
  \<^verbatim>\<open>undefined\<close> and \<^verbatim>\<open>null\<close>. The field \<^verbatim>\<open>_id\<close> is \<open>post_id\<close>. The resume time is a real:
  the posts are read from JSON, which has no NaN and no infinity.
\<close>

datatype PostType = Image | Video | Audio | Note | Quote

record Post =
  post_id :: jsstring
  createdAt :: jsstring
  title :: jsstring
  type :: PostType
  description :: "jsstring option"
  fileUrl :: "jsstring option"
  coverUrl :: "jsstring option"
  noteText :: "jsstring option"
  quoteText :: "jsstring option"
  source :: "jsstring option"
  tags :: "jsstring list option"
  initialTime :: "real option"

text \<open>\<^verbatim>\<open>const isMediaPost = (type) => [PostType.Audio, PostType.Video].includes(type)\<close>\<close>

definition isMediaPost :: "PostType \<Rightarrow> bool" where
  "isMediaPost t = (t \<in> set [Audio, Video])"

section \<open>Strings\<close>

text \<open>
  \<^verbatim>\<open>String.prototype.toLowerCase\<close> belongs to the host, not to the repository: the filter
  takes it as the parameter \<open>toLowerCase\<close>, and every handler that reads the filtered list
  passes it on as \<open>lc\<close>. What is proved of them holds for whatever function the host
  provides.
\<close>

text \<open>\<^verbatim>\<open>s.includes(t)\<close>: \<open>t\<close> occurs in \<open>s\<close> as a contiguous run, starting at some position.\<close>

fun includes_str :: "'a list \<Rightarrow> 'a list \<Rightarrow> bool" where
  "includes_str [] t = (t = [])"
| "includes_str (c # cs) t = (prefix t (c # cs) \<or> includes_str cs t)"

section \<open>The filtered list\<close>

text \<open>
  One disjunct of the filter's predicate, \<^verbatim>\<open>(post.f && post.f.toLowerCase().includes(q))\<close>:
  an absent field and the empty string are falsy.
\<close>

definition fieldIncludes :: "(jsstring \<Rightarrow> jsstring) \<Rightarrow> jsstring option \<Rightarrow> jsstring \<Rightarrow> bool" where
  "fieldIncludes toLowerCase f lowercasedQuery =
     (case f of
        None \<Rightarrow> False
      | Some s \<Rightarrow> s \<noteq> [] \<and> includes_str (toLowerCase s) lowercasedQuery)"

text \<open>The \<^verbatim>\<open>useMemo\<close> of \<^verbatim>\<open>filteredPosts\<close>, a function of \<^verbatim>\<open>posts\<close> and \<^verbatim>\<open>searchQuery\<close>.\<close>

definition filteredPosts :: "(jsstring \<Rightarrow> jsstring) \<Rightarrow> Post list \<Rightarrow> jsstring \<Rightarrow> Post list" where
  "filteredPosts toLowerCase posts searchQuery =
     (if searchQuery = [] then posts
      else
        let lowercasedQuery = toLowerCase searchQuery in
        filter (\<lambda>post.
            includes_str (toLowerCase (title post)) lowercasedQuery \<or>
            fieldIncludes toLowerCase (description post) lowercasedQuery \<or>
            fieldIncludes toLowerCase (noteText post) lowercasedQuery \<or>
            fieldIncludes toLowerCase (quoteText post) lowercasedQuery)
          posts)"

section \<open>The state of the application\<close>

text \<open>
  \<^verbatim>\<open>ActiveModalState\<close> and \<^verbatim>\<open>ActiveMediaState\<close> of the \<^verbatim>\<open>App\<close> component. The second has
  the fields of the first and two more, so it is its extension; \<^verbatim>\<open>null\<close> is \<open>None\<close>. An
  index is an integer: \<^verbatim>\<open>findIndex\<close> returns \<open>-1\<close>, and the handlers add and subtract one.
\<close>

datatype Mode = Modal | Minimized

record ActiveModalState =
  post :: Post
  index :: int

record ActiveMediaState = ActiveModalState +
  mode :: Mode
  currentTime :: "real option"

text \<open>The \<^verbatim>\<open>useState\<close> cells of \<^verbatim>\<open>App\<close>.\<close>

record AppState =
  posts :: "Post list"
  searchQuery :: jsstring
  activeMedia :: "ActiveMediaState option"
  activeModal :: "ActiveModalState option"
  isLoading :: bool
  error :: "jsstring option"

text \<open>
  Reading a property of \<^verbatim>\<open>undefined\<close> throws; a handler that throws has queued no state
  update.
\<close>

datatype exn = TypeError

text \<open>\<^verbatim>\<open>xs.findIndex(p)\<close>: the first index where \<open>p\<close> holds, \<open>-1\<close> when there is none.\<close>

fun findIndex :: "('a \<Rightarrow> bool) \<Rightarrow> 'a list \<Rightarrow> int" where
  "findIndex p [] = -1"
| "findIndex p (x # xs) =
     (if p x then 0 else (let i = findIndex p xs in if i = -1 then -1 else i + 1))"

text \<open>\<^verbatim>\<open>xs[i]\<close>: \<^verbatim>\<open>undefined\<close> (here \<open>None\<close>) outside the array.\<close>

definition atIndex :: "'a list \<Rightarrow> int \<Rightarrow> 'a option" where
  "atIndex xs i = (if 0 \<le> i \<and> i < int (length xs) then Some (xs ! nat i) else None)"

text \<open>\<^verbatim>\<open>post.initialTime || 0\<close>: \<^verbatim>\<open>undefined\<close> and \<open>0\<close> are falsy.\<close>

definition initialTimeOr0 :: "Post \<Rightarrow> real" where
  "initialTimeOr0 p = (case initialTime p of None \<Rightarrow> 0 | Some t \<Rightarrow> if t = 0 then 0 else t)"

subsection \<open>The handlers of the variant with the local fixture\<close>

text \<open>
  The \<^verbatim>\<open>App\<close> component of \<^verbatim>\<open>src/minimized.tsx\<close> (\<^verbatim>\<open>USE_MOCK_DATA = true\<close>).

  \<^verbatim>\<open>handleCardClick\<close>. The functional update \<^verbatim>\<open>prev => ({ ...prev!, mode: 'modal' })\<close> runs on
  the state the handler has read, since each event is rendered before the next one.
\<close>

definition handleCardClick :: "(jsstring \<Rightarrow> jsstring) \<Rightarrow> Post \<Rightarrow> AppState \<Rightarrow> AppState" where
  "handleCardClick lc p st =
     (let index = findIndex (\<lambda>q. post_id q = post_id p) (filteredPosts lc (posts st) (searchQuery st)) in
      if index = -1 then st
      else if isMediaPost (type p) then
        (case activeMedia st of
           Some m \<Rightarrow>
             if post_id (post m) = post_id p \<and> mode m = Minimized
             then st\<lparr>activeMedia := Some (m\<lparr>mode := Modal\<rparr>), activeModal := None\<rparr>
             else st\<lparr>activeMedia := Some \<lparr>post = p, index = index, mode = Modal,
                                            currentTime = Some (initialTimeOr0 p)\<rparr>,
                     activeModal := None\<rparr>
         | None \<Rightarrow>
             st\<lparr>activeMedia := Some \<lparr>post = p, index = index, mode = Modal,
                                       currentTime = Some (initialTimeOr0 p)\<rparr>,
                activeModal := None\<rparr>)
      else st\<lparr>activeModal := Some \<lparr>post = p, index = index\<rparr>\<rparr>)"

text \<open>
  The last lines of \<^verbatim>\<open>handleNext\<close> and of \<^verbatim>\<open>handlePrev\<close>, the same in both: a media post
  replaces \<^verbatim>\<open>activeMedia\<close> and closes the modal, any other post replaces \<^verbatim>\<open>activeModal\<close>
  and leaves \<^verbatim>\<open>activeMedia\<close> as it is.
\<close>

definition showPost :: "Post \<Rightarrow> int \<Rightarrow> AppState \<Rightarrow> AppState" where
  "showPost p newIndex st =
     (if isMediaPost (type p)
      then st\<lparr>activeMedia := Some \<lparr>post = p, index = newIndex, mode = Modal, currentTime = Some 0\<rparr>,
              activeModal := None\<rparr>
      else st\<lparr>activeModal := Some \<lparr>post = p, index = newIndex\<rparr>\<rparr>)"

text \<open>\<^verbatim>\<open>activeMedia?.index ?? activeModal?.index\<close>; \<open>None\<close> is \<^verbatim>\<open>undefined\<close>.\<close>

definition currentIndex :: "AppState \<Rightarrow> int option" where
  "currentIndex st =
     (case activeMedia st of
        Some m \<Rightarrow> Some (index m)
      | None \<Rightarrow> (case activeModal st of Some d \<Rightarrow> Some (index d) | None \<Rightarrow> None))"

definition handleNext :: "(jsstring \<Rightarrow> jsstring) \<Rightarrow> AppState \<Rightarrow> exn + AppState" where
  "handleNext lc st =
     (let fp = filteredPosts lc (posts st) (searchQuery st) in
      case currentIndex st of
        None \<Rightarrow> Inr st
      | Some ci \<Rightarrow>
          if ci \<ge> int (length fp) - 1 then Inr st
          else
            let newIndex = ci + 1 in
            (case atIndex fp newIndex of
               None \<Rightarrow> Inl TypeError
             | Some nextPost \<Rightarrow> Inr (showPost nextPost newIndex st)))"

definition handlePrev :: "(jsstring \<Rightarrow> jsstring) \<Rightarrow> AppState \<Rightarrow> exn + AppState" where
  "handlePrev lc st =
     (let fp = filteredPosts lc (posts st) (searchQuery st) in
      case currentIndex st of
        None \<Rightarrow> Inr st
      | Some ci \<Rightarrow>
          if ci \<le> 0 then Inr st
          else
            let newIndex = ci - 1 in
            (case atIndex fp newIndex of
               None \<Rightarrow> Inl TypeError
             | Some prevPost \<Rightarrow> Inr (showPost prevPost newIndex st)))"

definition handleCloseMedia :: "AppState \<Rightarrow> AppState" where
  "handleCloseMedia st = st\<lparr>activeMedia := None\<rparr>"

definition handleMinimizeMedia :: "AppState \<Rightarrow> AppState" where
  "handleMinimizeMedia st =
     st\<lparr>activeMedia := (case activeMedia st of Some prev \<Rightarrow> Some (prev\<lparr>mode := Minimized\<rparr>) | None \<Rightarrow> None)\<rparr>"

definition handleRestoreMedia :: "AppState \<Rightarrow> AppState" where
  "handleRestoreMedia st =
     st\<lparr>activeMedia := (case activeMedia st of Some prev \<Rightarrow> Some (prev\<lparr>mode := Modal\<rparr>) | None \<Rightarrow> None)\<rparr>"

definition handleCloseModal :: "AppState \<Rightarrow> AppState" where
  "handleCloseModal st = st\<lparr>activeModal := None\<rparr>"

definition handleSearchChange :: "jsstring \<Rightarrow> AppState \<Rightarrow> AppState" where
  "handleSearchChange v st = st\<lparr>searchQuery := v\<rparr>"

definition handleClearSearch :: "AppState \<Rightarrow> AppState" where
  "handleClearSearch st = st\<lparr>searchQuery := []\<rparr>"

subsection \<open>The handlers of the variant with the remote query\<close>

text \<open>
  The \<^verbatim>\<open>App\<close> component in the second part of \<^verbatim>\<open>src/types.ts\<close> (\<^verbatim>\<open>USE_MOCK_DATA = false\<close>)
  has the same state, the same filter and the same handlers for closing, minimizing and
  restoring. Its \<^verbatim>\<open>handleCardClick\<close> and \<^verbatim>\<open>handleNavigate\<close> end the branch of a post that is
  not a media post with
  \<^verbatim>\<open>if (activeMedia?.mode === 'modal') setActiveMedia(prev => ({ ...prev!, mode: 'minimized' }))\<close>.
\<close>

definition minimizeIfModal :: "AppState \<Rightarrow> AppState" where
  "minimizeIfModal st =
     (case activeMedia st of
        Some m \<Rightarrow> if mode m = Modal then st\<lparr>activeMedia := Some (m\<lparr>mode := Minimized\<rparr>)\<rparr> else st
      | None \<Rightarrow> st)"

definition handleCardClick_remote :: "(jsstring \<Rightarrow> jsstring) \<Rightarrow> Post \<Rightarrow> AppState \<Rightarrow> AppState" where
  "handleCardClick_remote lc p st =
     (let index = findIndex (\<lambda>q. post_id q = post_id p) (filteredPosts lc (posts st) (searchQuery st)) in
      if index = -1 then st
      else if isMediaPost (type p) then
        (case activeMedia st of
           Some m \<Rightarrow>
             if post_id (post m) = post_id p \<and> mode m = Minimized
             then st\<lparr>activeMedia := Some (m\<lparr>mode := Modal\<rparr>), activeModal := None\<rparr>
             else st\<lparr>activeMedia := Some \<lparr>post = p, index = index, mode = Modal,
                                            currentTime = Some (initialTimeOr0 p)\<rparr>,
                     activeModal := None\<rparr>
         | None \<Rightarrow>
             st\<lparr>activeMedia := Some \<lparr>post = p, index = index, mode = Modal,
                                       currentTime = Some (initialTimeOr0 p)\<rparr>,
                activeModal := None\<rparr>)
      else minimizeIfModal (st\<lparr>activeModal := Some \<lparr>post = p, index = index\<rparr>\<rparr>))"

datatype Direction = Next | Prev

text \<open>
  \<^verbatim>\<open>const currentItem = activeMedia?.mode === 'modal' ? activeMedia : activeModal\<close>, of which
  \<^verbatim>\<open>handleNavigate\<close> reads the index only.
\<close>

definition currentItemIndex :: "AppState \<Rightarrow> int option" where
  "currentItemIndex st =
     (case activeMedia st of
        Some m \<Rightarrow>
          if mode m = Modal then Some (index m)
          else (case activeModal st of Some d \<Rightarrow> Some (index d) | None \<Rightarrow> None)
      | None \<Rightarrow> (case activeModal st of Some d \<Rightarrow> Some (index d) | None \<Rightarrow> None))"

definition handleNavigate :: "(jsstring \<Rightarrow> jsstring) \<Rightarrow> Direction \<Rightarrow> AppState \<Rightarrow> exn + AppState" where
  "handleNavigate lc direction st =
     (let fp = filteredPosts lc (posts st) (searchQuery st) in
      case currentItemIndex st of
        None \<Rightarrow> Inr st
      | Some ci \<Rightarrow>
          let newIndex = (if direction = Next then ci + 1 else ci - 1) in
          if newIndex < 0 \<or> newIndex \<ge> int (length fp) then Inr st
          else
            (case atIndex fp newIndex of
               None \<Rightarrow> Inl TypeError
             | Some newPost \<Rightarrow>
                 if isMediaPost (type newPost)
                 then Inr (st\<lparr>activeMedia := Some \<lparr>post = newPost, index = newIndex, mode = Modal,
                                                     currentTime = Some 0\<rparr>,
                              activeModal := None\<rparr>)
                 else Inr (minimizeIfModal
                             (st\<lparr>activeModal := Some \<lparr>post = newPost, index = newIndex\<rparr>\<rparr>))))"

definition handleNext_remote :: "(jsstring \<Rightarrow> jsstring) \<Rightarrow> AppState \<Rightarrow> exn + AppState" where
  "handleNext_remote lc st = handleNavigate lc Next st"

definition handlePrev_remote :: "(jsstring \<Rightarrow> jsstring) \<Rightarrow> AppState \<Rightarrow> exn + AppState" where
  "handlePrev_remote lc st = handleNavigate lc Prev st"

section \<open>The player component\<close>

text \<open>
  \<^verbatim>\<open>MinimizedPlayer\<close>, in the third part of \<^verbatim>\<open>src/types.ts\<close>. Its four \<^verbatim>\<open>useState\<close> cells: the
  play state, the progress, the duration and the elapsed time the component shows (its
  \<^verbatim>\<open>currentTime\<close>, here \<open>currentTime'\<close>). A number that is not finite (NaN, an infinity) is
  \<open>None\<close>. With the cells go two things the listeners of the setup effect work with:
  \<open>resumeAt\<close>, the \<^verbatim>\<open>data.currentTime\<close> of the render in which the effect ran, which the
  \<^verbatim>\<open>loadedmetadata\<close> listener has captured, and \<open>seeked\<close>, the time that listener has assigned
  to \<^verbatim>\<open>media.currentTime\<close> since the item was set up (\<open>None\<close> while it has assigned none).
  The component is mounted while \<^verbatim>\<open>activeMedia\<close> is not \<^verbatim>\<open>null\<close>, and keeps all of this from
  one render to the next.
\<close>

record PlayerState =
  isPlaying :: bool
  progress :: "real option"
  duration :: "real option"
  currentTime' :: real
  resumeAt :: "real option"
  seeked :: "real option"

text \<open>\<^verbatim>\<open>const isMedia = post.type === PostType.Audio || post.type === PostType.Video\<close>\<close>

definition isMedia :: "Post \<Rightarrow> bool" where
  "isMedia p = (type p = Audio \<or> type p = Video)"

text \<open>The initial values of the four cells; no listener yet.\<close>

definition initialPlayer :: PlayerState where
  "initialPlayer =
     \<lparr>isPlaying = True, progress = Some 0, duration = Some 0, currentTime' = 0,
      resumeAt = None, seeked = None\<rparr>"

text \<open>
  The effect that sets up a new media item, with the dependencies \<^verbatim>\<open>[post._id, isMedia]\<close>:
  after \<^verbatim>\<open>if (!media || !isMedia) return\<close> it attaches the listeners, which close over
  \<^verbatim>\<open>data\<close>, and resets the four cells.
\<close>

definition setupNewItem :: "ActiveMediaState \<Rightarrow> PlayerState \<Rightarrow> PlayerState" where
  "setupNewItem data s =
     (if \<not> isMedia (post data) then s
      else s\<lparr>progress := Some 0, currentTime' := 0, duration := Some 0, isPlaying := True,
             resumeAt := currentTime data, seeked := None\<rparr>)"

text \<open>
  One render of \<^verbatim>\<open>{activeMedia && <MinimizedPlayer data={activeMedia} ... />}\<close>, from the
  previous \<^verbatim>\<open>activeMedia\<close> and cells to the cells after the effects of the new render: no
  component without \<^verbatim>\<open>activeMedia\<close>, a fresh one when there was none, and otherwise the
  same cells, reset by the effect when one of its dependencies has changed. The effects
  that call \<^verbatim>\<open>play()\<close> and \<^verbatim>\<open>pause()\<close> on the media element write no cell in the render;
  what the element reports later arrives through its listeners, below.
\<close>

definition renderPlayer ::
  "ActiveMediaState option \<Rightarrow> PlayerState option \<Rightarrow> ActiveMediaState option \<Rightarrow> PlayerState option"
where
  "renderPlayer prev cells data =
     (case data of
        None \<Rightarrow> None
      | Some d \<Rightarrow>
          (case (prev, cells) of
             (Some d0, Some s) \<Rightarrow>
               if post_id (post d0) \<noteq> post_id (post d) \<or> isMedia (post d0) \<noteq> isMedia (post d)
               then Some (setupNewItem d s)
               else Some s
           | _ \<Rightarrow> Some (setupNewItem d initialPlayer)))"

text \<open>\<^verbatim>\<open>togglePlay\<close>: \<^verbatim>\<open>setIsPlaying(prev => !prev)\<close>\<close>

definition togglePlay :: "PlayerState \<Rightarrow> PlayerState" where
  "togglePlay s = s\<lparr>isPlaying := \<not> isPlaying s\<rparr>"

text \<open>
  The listeners that the setup effect attaches to the media element, each applied to what
  the element reports; a duration that is not finite is \<open>None\<close>.

  \<^verbatim>\<open>handleLoadedMetadata\<close>: \<^verbatim>\<open>setDuration(media.duration)\<close>, then
  \<^verbatim>\<open>if (data.currentTime) media.currentTime = data.currentTime\<close>, the seek to the resume time;
  \<^verbatim>\<open>undefined\<close> and \<open>0\<close> are falsy.
\<close>

definition handleLoadedMetadata :: "real option \<Rightarrow> PlayerState \<Rightarrow> PlayerState" where
  "handleLoadedMetadata d s =
     s\<lparr>duration := d,
       seeked := (case resumeAt s of
                    None \<Rightarrow> seeked s
                  | Some t \<Rightarrow> if t = 0 then seeked s else Some t)\<rparr>"

text \<open>
  \<^verbatim>\<open>handleTimeUpdate\<close>, on the time \<open>t\<close> and the duration \<open>d\<close> of the element:
  \<^verbatim>\<open>if (!isFinite(media.duration)) return\<close>, then \<^verbatim>\<open>setCurrentTime(media.currentTime)\<close> and
  \<^verbatim>\<open>setProgress((media.currentTime / media.duration) * 100)\<close>. A division by the duration 0
  gives NaN or an infinity.
\<close>

definition handleTimeUpdate :: "real \<Rightarrow> real option \<Rightarrow> PlayerState \<Rightarrow> PlayerState" where
  "handleTimeUpdate t d s =
     (case d of
        None \<Rightarrow> s
      | Some dur \<Rightarrow>
          s\<lparr>currentTime' := t,
            progress := (if dur = 0 then None else Some ((t / dur) * 100))\<rparr>)"

text \<open>
  \<^verbatim>\<open>handlePlay\<close> and \<^verbatim>\<open>handlePause\<close>. A \<^verbatim>\<open>play()\<close> that the host rejects runs
  \<^verbatim>\<open>setIsPlaying(false)\<close>, as the \<^verbatim>\<open>pause\<close> listener does.
\<close>

definition handlePlay :: "PlayerState \<Rightarrow> PlayerState" where
  "handlePlay s = s\<lparr>isPlaying := True\<rparr>"

definition handlePause :: "PlayerState \<Rightarrow> PlayerState" where
  "handlePause s = s\<lparr>isPlaying := False\<rparr>"

section \<open>The page: the application and its player\<close>

record Page =
  app :: AppState
  player :: "PlayerState option"

definition commit :: "Page \<Rightarrow> AppState \<Rightarrow> Page" where
  "commit pg st' =
     \<lparr>app = st', player = renderPlayer (activeMedia (app pg)) (player pg) (activeMedia st')\<rparr>"

definition commitResult :: "Page \<Rightarrow> exn + AppState \<Rightarrow> exn + Page" where
  "commitResult pg r = (case r of Inl e \<Rightarrow> Inl e | Inr st' \<Rightarrow> Inr (commit pg st'))"

text \<open>
  The user's intents, the arrival of the catalog (\<^verbatim>\<open>setPosts(...); setIsLoading(false)\<close>)
  and the reports of the media element.
\<close>

datatype Event =
    CardClick Post
  | NextItem
  | PrevItem
  | MinimizeMedia
  | RestoreMedia
  | CloseMedia
  | CloseModal
  | SearchChange jsstring
  | ClearSearch
  | PostsLoaded "Post list"
  | TogglePlay
  | MediaLoadedMetadata "real option"
  | MediaTimeUpdate real "real option"
  | MediaPlay
  | MediaPause

definition postsLoaded :: "Post list \<Rightarrow> AppState \<Rightarrow> AppState" where
  "postsLoaded ps st = st\<lparr>posts := ps, isLoading := False\<rparr>"

definition togglePlayPage :: "Page \<Rightarrow> Page" where
  "togglePlayPage pg =
     pg\<lparr>player := (case player pg of Some s \<Rightarrow> Some (togglePlay s) | None \<Rightarrow> None)\<rparr>"

text \<open>A listener runs on the cells of a mounted player whose post is a media post.\<close>

definition mediaReport :: "(PlayerState \<Rightarrow> PlayerState) \<Rightarrow> Page \<Rightarrow> Page" where
  "mediaReport listener pg =
     (case (activeMedia (app pg), player pg) of
        (Some m, Some s) \<Rightarrow> if isMedia (post m) then pg\<lparr>player := Some (listener s)\<rparr> else pg
      | _ \<Rightarrow> pg)"

fun dispatch :: "(jsstring \<Rightarrow> jsstring) \<Rightarrow> Event \<Rightarrow> Page \<Rightarrow> exn + Page" where
  "dispatch lc (CardClick p) pg = Inr (commit pg (handleCardClick lc p (app pg)))"
| "dispatch lc NextItem pg = commitResult pg (handleNext lc (app pg))"
| "dispatch lc PrevItem pg = commitResult pg (handlePrev lc (app pg))"
| "dispatch lc MinimizeMedia pg = Inr (commit pg (handleMinimizeMedia (app pg)))"
| "dispatch lc RestoreMedia pg = Inr (commit pg (handleRestoreMedia (app pg)))"
| "dispatch lc CloseMedia pg = Inr (commit pg (handleCloseMedia (app pg)))"
| "dispatch lc CloseModal pg = Inr (commit pg (handleCloseModal (app pg)))"
| "dispatch lc (SearchChange v) pg = Inr (commit pg (handleSearchChange v (app pg)))"
| "dispatch lc ClearSearch pg = Inr (commit pg (handleClearSearch (app pg)))"
| "dispatch lc (PostsLoaded ps) pg = Inr (commit pg (postsLoaded ps (app pg)))"
| "dispatch lc TogglePlay pg = Inr (togglePlayPage pg)"
| "dispatch lc (MediaLoadedMetadata d) pg = Inr (mediaReport (handleLoadedMetadata d) pg)"
| "dispatch lc (MediaTimeUpdate t d) pg = Inr (mediaReport (handleTimeUpdate t d) pg)"
| "dispatch lc MediaPlay pg = Inr (mediaReport handlePlay pg)"
| "dispatch lc MediaPause pg = Inr (mediaReport handlePause pg)"

fun dispatch_remote :: "(jsstring \<Rightarrow> jsstring) \<Rightarrow> Event \<Rightarrow> Page \<Rightarrow> exn + Page" where
  "dispatch_remote lc (CardClick p) pg = Inr (commit pg (handleCardClick_remote lc p (app pg)))"
| "dispatch_remote lc NextItem pg = commitResult pg (handleNext_remote lc (app pg))"
| "dispatch_remote lc PrevItem pg = commitResult pg (handlePrev_remote lc (app pg))"
| "dispatch_remote lc MinimizeMedia pg = Inr (commit pg (handleMinimizeMedia (app pg)))"
| "dispatch_remote lc RestoreMedia pg = Inr (commit pg (handleRestoreMedia (app pg)))"
| "dispatch_remote lc CloseMedia pg = Inr (commit pg (handleCloseMedia (app pg)))"
| "dispatch_remote lc CloseModal pg = Inr (commit pg (handleCloseModal (app pg)))"
| "dispatch_remote lc (SearchChange v) pg = Inr (commit pg (handleSearchChange v (app pg)))"
| "dispatch_remote lc ClearSearch pg = Inr (commit pg (handleClearSearch (app pg)))"
| "dispatch_remote lc (PostsLoaded ps) pg = Inr (commit pg (postsLoaded ps (app pg)))"
| "dispatch_remote lc TogglePlay pg = Inr (togglePlayPage pg)"
| "dispatch_remote lc (MediaLoadedMetadata d) pg = Inr (mediaReport (handleLoadedMetadata d) pg)"
| "dispatch_remote lc (MediaTimeUpdate t d) pg = Inr (mediaReport (handleTimeUpdate t d) pg)"
| "dispatch_remote lc MediaPlay pg = Inr (mediaReport handlePlay pg)"
| "dispatch_remote lc MediaPause pg = Inr (mediaReport handlePause pg)"

text \<open>The first render: nothing loaded, nothing open.\<close>

definition initialPage :: Page where
  "initialPage =
     \<lparr>app = \<lparr>posts = [], searchQuery = [], activeMedia = None, activeModal = None,
             isLoading = True, error = None\<rparr>,
      player = None\<rparr>"

text \<open>A handler that throws leaves the state as it was, so only its results are steps.\<close>

inductive reachable :: "(jsstring \<Rightarrow> jsstring) \<Rightarrow> Page \<Rightarrow> bool" for lc where
  init: "reachable lc initialPage"
| step: "reachable lc pg \<Longrightarrow> dispatch lc e pg = Inr pg' \<Longrightarrow> reachable lc pg'"

inductive reachable_remote :: "(jsstring \<Rightarrow> jsstring) \<Rightarrow> Page \<Rightarrow> bool" for lc where
  init_remote: "reachable_remote lc initialPage"
| step_remote: "reachable_remote lc pg \<Longrightarrow> dispatch_remote lc e pg = Inr pg' \<Longrightarrow> reachable_remote lc pg'"

section \<open>What the specification speaks of\<close>












text \<open>
  What the host's \<^verbatim>\<open>toLowerCase\<close> does to a string of ASCII code units: it adds 32 to the
  capitals and keeps the rest.
\<close>

definition asciiLower :: "nat \<Rightarrow> nat" where
  "asciiLower u = (if 65 \<le> u \<and> u \<le> 90 then u + 32 else u)"

definition asciiLowerCase :: "jsstring \<Rightarrow> jsstring" where
  "asciiLowerCase s = map asciiLower s"




text \<open>
  A sequence of events, each rendered before the next; it stops at the first handler that
  throws.
\<close>

fun run :: "(jsstring \<Rightarrow> jsstring) \<Rightarrow> Event list \<Rightarrow> Page \<Rightarrow> exn + Page" where
  "run lc [] pg = Inr pg"
| "run lc (e # es) pg = (case dispatch lc e pg of Inl x \<Rightarrow> Inl x | Inr pg' \<Rightarrow> run lc es pg')"

fun run_remote :: "(jsstring \<Rightarrow> jsstring) \<Rightarrow> Event list \<Rightarrow> Page \<Rightarrow> exn + Page" where
  "run_remote lc [] pg = Inr pg"
| "run_remote lc (e # es) pg =
     (case dispatch_remote lc e pg of Inl x \<Rightarrow> Inl x | Inr pg' \<Rightarrow> run_remote lc es pg')"

text \<open>
  The active items with the mode each is displayed in: the media item in the mode of the
  player, and the item of the \<^verbatim>\<open>Modal\<close> component, which is always full-screen.
\<close>

definition displayModes :: "AppState \<Rightarrow> (Post \<times> Mode) list" where
  "displayModes st =
     (case activeMedia st of Some m \<Rightarrow> [(post m, mode m)] | None \<Rightarrow> []) @
     (case activeModal st of Some d \<Rightarrow> [(post d, Modal)] | None \<Rightarrow> [])"

definition activeItems :: "AppState \<Rightarrow> Post list" where
  "activeItems st = map fst (displayModes st)"

text \<open>Each of the two cells holds posts of its own kind only.\<close>

definition slotsByKind :: "AppState \<Rightarrow> bool" where
  "slotsByKind st =
     ((case activeMedia st of Some m \<Rightarrow> isMediaPost (type (post m)) | None \<Rightarrow> True) \<and>
      (case activeModal st of Some d \<Rightarrow> \<not> isMediaPost (type (post d)) | None \<Rightarrow> True))"

text \<open>The player has cells exactly while \<^verbatim>\<open>activeMedia\<close> is not \<^verbatim>\<open>null\<close>.\<close>

definition mounted :: "Page \<Rightarrow> bool" where
  "mounted pg = (player pg = None \<longleftrightarrow> activeMedia (app pg) = None)"

definition pageOk :: "Page \<Rightarrow> bool" where
  "pageOk pg = (slotsByKind (app pg) \<and> mounted pg)"

section \<open>A sample catalog\<close>

text \<open>The code units of a text written in ASCII.\<close>

definition units :: "string \<Rightarrow> jsstring" where
  "units cs = map of_char cs"

definition mkPost :: "string \<Rightarrow> PostType \<Rightarrow> string \<Rightarrow> Post" where
  "mkPost i k t =
     \<lparr>post_id = units i, createdAt = [], title = units t, type = k, description = None, fileUrl = None,
      coverUrl = None, noteText = None, quoteText = None, source = None, tags = None,
      initialTime = None\<rparr>"

definition sunsetImage :: Post where "sunsetImage = mkPost ''i'' Image ''Sunset''"

definition songAudio :: Post where "songAudio = mkPost ''a'' Audio ''Song''"

definition memoNote :: Post where "memoNote = mkPost ''n'' Note ''Memo''"


definition clipVideo :: Post where "clipVideo = (mkPost ''v'' Video ''Clip'')\<lparr>initialTime := Some 12\<rparr>"

definition appOf :: "Post list \<Rightarrow> string \<Rightarrow> AppState" where
  "appOf ps q =
     \<lparr>posts = ps, searchQuery = units q, activeMedia = None, activeModal = None,
      isLoading = False, error = None\<rparr>"

text \<open>The audio post open full-screen, paused by the user at 80 of 200 seconds.\<close>

definition samplePage :: Page where
  "samplePage =
     \<lparr>app = (appOf [sunsetImage, songAudio, clipVideo, memoNote] [])
              \<lparr>activeMedia := Some \<lparr>post = songAudio, index = 1, mode = Modal, currentTime = Some 0\<rparr>\<rparr>,
      player = Some \<lparr>isPlaying = False, progress = Some 40, duration = Some 200, currentTime' = 80,
                 resumeAt = Some 0, seeked = None\<rparr>\<rparr>"


text \<open>The audio post paused and minimized while the gallery is browsed.\<close>

definition browsingPage :: Page where
  "browsingPage =
     \<lparr>app = (appOf [sunsetImage, songAudio, clipVideo, memoNote] [])
              \<lparr>activeMedia := Some \<lparr>post = songAudio, index = 1, mode = Minimized, currentTime = Some 0\<rparr>\<rparr>,
      player = Some \<lparr>isPlaying = False, progress = Some 0, duration = Some 0, currentTime' = 0,
                          resumeAt = Some 0, seeked = None\<rparr>\<rparr>"

text \<open>
  The note open at index 1 of two posts, after which the query has left one post in the
  filtered list: the recorded index is the length of the list.
\<close>

definition orphanedPage :: Page where
  "orphanedPage =
     \<lparr>app = (appOf [sunsetImage, memoNote] ''SUNSET'')\<lparr>activeModal := Some \<lparr>post = memoNote, index = 1\<rparr>\<rparr>,
      player = None\<rparr>"

section \<open>Evaluation of the samples\<close>

lemmas sample_defs = mkPost_def sunsetImage_def songAudio_def memoNote_def clipVideo_def appOf_def
  units_def

lemmas handler_defs = handleCardClick_def handleCardClick_remote_def handleNext_def handlePrev_def
  handleNavigate_def handleNext_remote_def handlePrev_remote_def showPost_def currentIndex_def
  currentItemIndex_def minimizeIfModal_def handleCloseMedia_def handleMinimizeMedia_def
  handleRestoreMedia_def handleCloseModal_def handleSearchChange_def handleClearSearch_def
  postsLoaded_def atIndex_def isMediaPost_def initialTimeOr0_def

lemmas page_defs = commit_def commitResult_def renderPlayer_def setupNewItem_def initialPlayer_def
  isMedia_def togglePlay_def togglePlayPage_def initialPage_def mediaReport_def
  handleLoadedMetadata_def handleTimeUpdate_def handlePlay_def handlePause_def


lemmas filter_defs = filteredPosts_def fieldIncludes_def asciiLowerCase_def asciiLower_def Let_def





section \<open>The filter\<close>


















section \<open>Opening a card\<close>

lemma findIndex_ge: "findIndex P xs \<ge> -1"
  by (induction xs) (auto simp: Let_def)

lemma findIndex_absent: "findIndex P xs = -1 \<longleftrightarrow> (\<forall>x \<in> set xs. \<not> P x)"
proof (induction xs)
  case Nil
  then show ?case by simp
next
  case (Cons x xs)
  have "findIndex P xs \<ge> -1" by (rule findIndex_ge)
  then have "findIndex P xs + 1 \<noteq> -1" by arith
  with Cons show ?case by (auto simp: Let_def)
qed

lemma findIndex_found:
  "findIndex P xs \<noteq> -1 \<Longrightarrow>
     0 \<le> findIndex P xs \<and> findIndex P xs < int (length xs) \<and> P (xs ! nat (findIndex P xs))"
proof (induction xs)
  case Nil
  then show ?case by simp
next
  case (Cons x xs)
  show ?case
  proof (cases "P x")
    case True
    then show ?thesis by simp
  next
    case False
    with Cons.prems have ne: "findIndex P xs \<noteq> -1" by (auto simp: Let_def split: if_splits)
    from Cons.IH [OF ne] False ne show ?thesis
      by (auto simp: Let_def nat_add_distrib)
  qed
qed



lemma renderPlayer_same:
  "mounted pg \<Longrightarrow> renderPlayer (activeMedia (app pg)) (player pg) (activeMedia (app pg)) = player pg"
  by (auto simp: mounted_def renderPlayer_def split: option.splits)

lemma commit_same: "mounted pg \<Longrightarrow> commit pg (app pg) = pg"
  by (simp add: commit_def renderPlayer_same)




text \<open>
  Claim C10. A click on the card of a post whose identifier does not occur in the current
  filtered list changes nothing, in both variants: the handler returns the state of the
  application as it was, and the page with its player stays the same.
\<close>

theorem cardClick_absent_noop:
  assumes "post_id p \<notin> post_id ` set (filteredPosts lc (posts (app pg)) (searchQuery (app pg)))"
  shows "handleCardClick lc p (app pg) = app pg \<and> handleCardClick_remote lc p (app pg) = app pg \<and>
         (mounted pg \<longrightarrow>
            dispatch lc (CardClick p) pg = Inr pg \<and> dispatch_remote lc (CardClick p) pg = Inr pg)"
proof -
  from assms
  have "findIndex (\<lambda>q. post_id q = post_id p)
          (filteredPosts lc (posts (app pg)) (searchQuery (app pg))) = -1"
    unfolding findIndex_absent by (metis imageI)
  then have same: "handleCardClick lc p (app pg) = app pg \<and> handleCardClick_remote lc p (app pg) = app pg"
    by (simp add: handleCardClick_def handleCardClick_remote_def)
  then show ?thesis
    by (simp add: commit_same)
qed

theorem cardClick_absent_noop_witness:
  "post_id memoNote \<notin> post_id ` set (filteredPosts asciiLowerCase (posts (app orphanedPage))
                                          (searchQuery (app orphanedPage))) \<and>
   mounted orphanedPage \<and>
   handleCardClick asciiLowerCase memoNote (app orphanedPage) = app orphanedPage \<and>
   handleCardClick_remote asciiLowerCase memoNote (app orphanedPage) = app orphanedPage \<and>
   dispatch asciiLowerCase (CardClick memoNote) orphanedPage = Inr orphanedPage \<and>
   dispatch_remote asciiLowerCase (CardClick memoNote) orphanedPage = Inr orphanedPage"
proof -
  have h: "post_id memoNote \<notin> post_id ` set (filteredPosts asciiLowerCase (posts (app orphanedPage))
                                                  (searchQuery (app orphanedPage)))"
    by (simp add: orphanedPage_def sample_defs filter_defs)
  have m: "mounted orphanedPage"
    by (simp add: mounted_def orphanedPage_def appOf_def)
  from h m cardClick_absent_noop [OF h] show ?thesis by blast
qed




section \<open>Navigation\<close>

lemma handleNext_end:
  "currentIndex st = Some p \<Longrightarrow> p \<ge> int (length (filteredPosts lc (posts st) (searchQuery st))) - 1
    \<Longrightarrow> handleNext lc st = Inr st"
  by (simp add: handleNext_def)

lemma handlePrev_start:
  "currentIndex st = Some p \<Longrightarrow> p \<le> 0 \<Longrightarrow> handlePrev lc st = Inr st"
  by (simp add: handlePrev_def)

lemma handleNext_inside:
  "currentIndex st = Some p \<Longrightarrow> -1 \<le> p \<Longrightarrow>
   p < int (length (filteredPosts lc (posts st) (searchQuery st))) - 1 \<Longrightarrow>
   handleNext lc st = Inr (showPost (filteredPosts lc (posts st) (searchQuery st) ! nat (p + 1)) (p + 1) st)"
  by (simp add: handleNext_def atIndex_def Let_def)

lemma handlePrev_inside:
  "currentIndex st = Some p \<Longrightarrow> 0 < p \<Longrightarrow>
   p \<le> int (length (filteredPosts lc (posts st) (searchQuery st))) \<Longrightarrow>
   handlePrev lc st = Inr (showPost (filteredPosts lc (posts st) (searchQuery st) ! nat (p - 1)) (p - 1) st)"
  by (simp add: handlePrev_def atIndex_def Let_def)

lemma handlePrev_beyond:
  "currentIndex st = Some p \<Longrightarrow> 
   p > int (length (filteredPosts lc (posts st) (searchQuery st))) \<Longrightarrow>
   handlePrev lc st = Inl TypeError"
  by (simp add: handlePrev_def atIndex_def Let_def)

lemma handleNext_below:
  "currentIndex st = Some p \<Longrightarrow> p < -1 \<Longrightarrow> filteredPosts lc (posts st) (searchQuery st) \<noteq> [] \<Longrightarrow>
   handleNext lc st = Inl TypeError"
  by (simp add: handleNext_def atIndex_def Let_def)

lemma orphanedPage_reached:
  "run asciiLowerCase [PostsLoaded [sunsetImage, memoNote], CardClick memoNote, SearchChange (units ''SUNSET'')] initialPage
     = Inr orphanedPage"
  by (simp add: orphanedPage_def sample_defs filter_defs handler_defs page_defs)

lemma orphaned_filtered:
  "filteredPosts asciiLowerCase (posts (app orphanedPage)) (searchQuery (app orphanedPage)) = [sunsetImage]"
  by (simp add: orphanedPage_def sample_defs filter_defs)

text \<open>
  Claim C3, as stated, fails: the claim makes a step from every position outside the list
  a no-op. From the position just past the end, which a change of the query reaches,
  \<^verbatim>\<open>handlePrev\<close> opens the last post of the list.
\<close>

theorem prev_past_end_counterexample:
  "currentIndex (app orphanedPage) = Some 1 \<and>
   length (filteredPosts asciiLowerCase (posts (app orphanedPage)) (searchQuery (app orphanedPage))) = 1 \<and>
   handlePrev asciiLowerCase (app orphanedPage)
     = Inr ((app orphanedPage)\<lparr>activeModal := Some \<lparr>post = sunsetImage, index = 0\<rparr>\<rparr>) \<and>
   handlePrev asciiLowerCase (app orphanedPage) \<noteq> Inr (app orphanedPage)"
  by (simp add: orphanedPage_def sample_defs filter_defs handler_defs)

text \<open>
  Further past the end, \<^verbatim>\<open>handlePrev\<close> reads \<^verbatim>\<open>filteredPosts[newIndex]\<close> outside the array
  and throws on \<^verbatim>\<open>prevPost.type\<close>; the variant with the remote query tests \<^verbatim>\<open>newIndex\<close>
  against the length and returns.
\<close>

lemma prev_beyond_end_throws:
  "run asciiLowerCase [PostsLoaded [sunsetImage, songAudio, memoNote], CardClick memoNote, SearchChange (units ''SUNSET''), PrevItem]
     initialPage = Inl TypeError"
  by (simp add: sample_defs filter_defs handler_defs page_defs)

lemma navigate_never_throws: "handleNavigate lc d st \<noteq> Inl TypeError"
  by (auto simp: handleNavigate_def atIndex_def Let_def split: option.splits)

text \<open>
  Claim C3, amended. With \<open>p\<close> the current position and \<open>L\<close> the filtered list:
  \<^verbatim>\<open>handleNext\<close> changes nothing when \<open>p \<ge> length L - 1\<close>, so at the last position and at
  every position past the end; \<^verbatim>\<open>handlePrev\<close> changes nothing when \<open>p \<le> 0\<close>; from a position
  inside the list a step opens the post at exactly \<open>p + 1\<close> or \<open>p - 1\<close>, so navigation never
  wraps; and from the position \<open>length L\<close>, just past the end, \<^verbatim>\<open>handlePrev\<close> opens the last
  post.
\<close>

theorem navigation_bounds:
  assumes "currentIndex st = Some p"
    and "L = filteredPosts lc (posts st) (searchQuery st)"
  shows "(p \<ge> int (length L) - 1 \<longrightarrow> handleNext lc st = Inr st) \<and>
         (p \<le> 0 \<longrightarrow> handlePrev lc st = Inr st) \<and>
         (0 \<le> p \<and> p < int (length L) - 1 \<longrightarrow>
            handleNext lc st = Inr (showPost (L ! nat (p + 1)) (p + 1) st)) \<and>
         (0 < p \<and> p \<le> int (length L) \<longrightarrow>
            handlePrev lc st = Inr (showPost (L ! nat (p - 1)) (p - 1) st))"
  using assms
  by (simp add: handleNext_end handlePrev_start handleNext_inside handlePrev_inside)

theorem navigation_bounds_witness:
  "currentIndex (app samplePage) = Some 1 \<and>
   handleNext asciiLowerCase (app samplePage) = Inr (showPost clipVideo 2 (app samplePage)) \<and>
   handlePrev asciiLowerCase (app samplePage) = Inr (showPost sunsetImage 0 (app samplePage)) \<and>
   currentIndex (app orphanedPage) = Some 1 \<and>
   handleNext asciiLowerCase (app orphanedPage) = Inr (app orphanedPage) \<and>
   handlePrev asciiLowerCase (app orphanedPage) = Inr (showPost sunsetImage 0 (app orphanedPage)) \<and>
   handlePrev asciiLowerCase ((appOf [sunsetImage, memoNote] [])\<lparr>activeModal := Some \<lparr>post = sunsetImage, index = 0\<rparr>\<rparr>)
     = Inr ((appOf [sunsetImage, memoNote] [])\<lparr>activeModal := Some \<lparr>post = sunsetImage, index = 0\<rparr>\<rparr>)"
proof -
  have c: "currentIndex (app samplePage) = Some 1"
    by (simp add: samplePage_def appOf_def currentIndex_def)
  have l: "[sunsetImage, songAudio, clipVideo, memoNote]
             = filteredPosts asciiLowerCase (posts (app samplePage)) (searchQuery (app samplePage))"
    by (simp add: samplePage_def appOf_def filteredPosts_def units_def)
  have c': "currentIndex (app orphanedPage) = Some 1"
    by (simp add: orphanedPage_def appOf_def currentIndex_def)
  have l': "[sunsetImage] = filteredPosts asciiLowerCase (posts (app orphanedPage)) (searchQuery (app orphanedPage))"
    by (simp add: orphaned_filtered)
  let ?first = "(appOf [sunsetImage, memoNote] [])\<lparr>activeModal := Some \<lparr>post = sunsetImage, index = 0\<rparr>\<rparr>"
  have c'': "currentIndex ?first = Some 0"
    by (simp add: appOf_def currentIndex_def)
  have l'': "[sunsetImage, memoNote] = filteredPosts asciiLowerCase (posts ?first) (searchQuery ?first)"
    by (simp add: appOf_def filteredPosts_def units_def)
  from navigation_bounds [OF c l] navigation_bounds [OF c' l'] navigation_bounds [OF c'' l''] c c'
  show ?thesis by simp
qed


section \<open>What every reachable lc page satisfies\<close>

lemma slotsByKind_cardClick: "slotsByKind st \<Longrightarrow> slotsByKind (handleCardClick lc p st)"
  by (auto simp: slotsByKind_def handleCardClick_def Let_def split: option.splits)

lemma slotsByKind_cardClick_remote: "slotsByKind st \<Longrightarrow> slotsByKind (handleCardClick_remote lc p st)"
  by (auto simp: slotsByKind_def handleCardClick_remote_def minimizeIfModal_def Let_def split: option.splits)

lemma slotsByKind_showPost: "slotsByKind st \<Longrightarrow> slotsByKind (showPost p i st)"
  by (auto simp: slotsByKind_def showPost_def split: option.splits)

lemma slotsByKind_next: "slotsByKind st \<Longrightarrow> handleNext lc st = Inr st' \<Longrightarrow> slotsByKind st'"
  by (auto simp: handleNext_def Let_def slotsByKind_showPost split: option.splits if_splits)

lemma slotsByKind_prev: "slotsByKind st \<Longrightarrow> handlePrev lc st = Inr st' \<Longrightarrow> slotsByKind st'"
  by (auto simp: handlePrev_def Let_def slotsByKind_showPost split: option.splits if_splits)

lemma slotsByKind_navigate: "slotsByKind st \<Longrightarrow> handleNavigate lc d st = Inr st' \<Longrightarrow> slotsByKind st'"
  by (auto simp: handleNavigate_def Let_def slotsByKind_def minimizeIfModal_def
      split: option.splits if_splits)

lemma slotsByKind_others:
  "slotsByKind st \<Longrightarrow> slotsByKind (handleMinimizeMedia st)"
  "slotsByKind st \<Longrightarrow> slotsByKind (handleRestoreMedia st)"
  "slotsByKind st \<Longrightarrow> slotsByKind (handleCloseMedia st)"
  "slotsByKind st \<Longrightarrow> slotsByKind (handleCloseModal st)"
  "slotsByKind st \<Longrightarrow> slotsByKind (handleSearchChange v st)"
  "slotsByKind st \<Longrightarrow> slotsByKind (handleClearSearch st)"
  "slotsByKind st \<Longrightarrow> slotsByKind (postsLoaded ps st)"
  by (auto simp: slotsByKind_def handleMinimizeMedia_def handleRestoreMedia_def handleCloseMedia_def
      handleCloseModal_def handleSearchChange_def handleClearSearch_def postsLoaded_def
      split: option.splits)

lemma app_commit: "app (commit pg st') = st'"
  by (simp add: commit_def)

lemma mounted_commit: "mounted (commit pg st')"
  by (auto simp: mounted_def commit_def renderPlayer_def split: option.splits)

lemma mounted_togglePlay: "mounted pg \<Longrightarrow> mounted (togglePlayPage pg)"
  by (auto simp: mounted_def togglePlayPage_def split: option.splits)

lemma app_togglePlay: "app (togglePlayPage pg) = app pg"
  by (simp add: togglePlayPage_def)

lemma app_mediaReport: "app (mediaReport f pg) = app pg"
  by (simp add: mediaReport_def split: option.splits)

lemma mounted_mediaReport: "mounted pg \<Longrightarrow> mounted (mediaReport f pg)"
  by (auto simp: mounted_def mediaReport_def split: option.splits)

lemma pageOk_mediaReport: "pageOk pg \<Longrightarrow> pageOk (mediaReport f pg)"
  by (simp add: pageOk_def app_mediaReport mounted_mediaReport)

lemma pageOk_commit: "slotsByKind st' \<Longrightarrow> pageOk (commit pg st')"
  by (simp add: pageOk_def app_commit mounted_commit)

lemma pageOk_slots: "pageOk pg \<Longrightarrow> slotsByKind (app pg)"
  by (simp add: pageOk_def)

lemma pageOk_commitResult:
  "commitResult pg r = Inr pg' \<Longrightarrow> (\<And>st'. r = Inr st' \<Longrightarrow> slotsByKind st') \<Longrightarrow> pageOk pg'"
  by (cases r) (auto simp: commitResult_def pageOk_commit)

lemma dispatch_ok:
  assumes "pageOk pg" and "dispatch lc e pg = Inr pg'"
  shows "pageOk pg'"
proof -
  from assms(1) have k: "slotsByKind (app pg)" and m: "mounted pg"
    by (simp_all add: pageOk_def)
  show ?thesis
  proof (cases e)
    case NextItem
    with assms(2) have "commitResult pg (handleNext lc (app pg)) = Inr pg'" by simp
    then show ?thesis by (rule pageOk_commitResult) (rule slotsByKind_next [OF k])
  next
    case PrevItem
    with assms(2) have "commitResult pg (handlePrev lc (app pg)) = Inr pg'" by simp
    then show ?thesis by (rule pageOk_commitResult) (rule slotsByKind_prev [OF k])
  next
    case TogglePlay
    with assms(2) have "pg' = togglePlayPage pg" by simp
    with k m show ?thesis by (simp add: pageOk_def app_togglePlay mounted_togglePlay)
  qed (use assms in \<open>auto simp: pageOk_commit pageOk_mediaReport slotsByKind_cardClick
        slotsByKind_others dest: pageOk_slots\<close>)
qed

lemma dispatch_remote_ok:
  assumes "pageOk pg" and "dispatch_remote lc e pg = Inr pg'"
  shows "pageOk pg'"
proof -
  from assms(1) have k: "slotsByKind (app pg)" and m: "mounted pg"
    by (simp_all add: pageOk_def)
  show ?thesis
  proof (cases e)
    case NextItem
    with assms(2) have "commitResult pg (handleNavigate lc Next (app pg)) = Inr pg'"
      by (simp add: handleNext_remote_def)
    then show ?thesis by (rule pageOk_commitResult) (rule slotsByKind_navigate [OF k])
  next
    case PrevItem
    with assms(2) have "commitResult pg (handleNavigate lc Prev (app pg)) = Inr pg'"
      by (simp add: handlePrev_remote_def)
    then show ?thesis by (rule pageOk_commitResult) (rule slotsByKind_navigate [OF k])
  next
    case TogglePlay
    with assms(2) have "pg' = togglePlayPage pg" by simp
    with k m show ?thesis by (simp add: pageOk_def app_togglePlay mounted_togglePlay)
  qed (use assms in \<open>auto simp: pageOk_commit pageOk_mediaReport slotsByKind_cardClick_remote
        slotsByKind_others dest: pageOk_slots\<close>)
qed

lemma initial_ok: "pageOk initialPage"
  by (simp add: pageOk_def slotsByKind_def mounted_def initialPage_def)

lemma reachable_ok: "reachable lc pg \<Longrightarrow> pageOk pg"
  by (induction rule: reachable.induct) (auto simp: initial_ok intro: dispatch_ok)

lemma reachable_remote_ok: "reachable_remote lc pg \<Longrightarrow> pageOk pg"
  by (induction rule: reachable_remote.induct) (auto simp: initial_ok intro: dispatch_remote_ok)

section \<open>Minimizing and restoring the player\<close>

text \<open>
  Claim C1. With a media item open and the player in any transport state, minimizing
  changes the mode of the item and nothing else: the item, its index, its resume time and
  the cells of the player (play state, elapsed time) stay as they are. Restoring
  afterwards gives the same item in modal mode with the same cells, so from modal mode the
  two steps give back the page they started from.
\<close>

theorem minimize_restore_preserves_transport:
  assumes "activeMedia (app pg) = Some m" and "player pg = Some s"
  shows "dispatch lc MinimizeMedia pg
           = Inr (pg\<lparr>app := (app pg)\<lparr>activeMedia := Some (m\<lparr>mode := Minimized\<rparr>)\<rparr>\<rparr>) \<and>
         dispatch lc RestoreMedia (pg\<lparr>app := (app pg)\<lparr>activeMedia := Some (m\<lparr>mode := Minimized\<rparr>)\<rparr>\<rparr>)
           = Inr (pg\<lparr>app := (app pg)\<lparr>activeMedia := Some (m\<lparr>mode := Modal\<rparr>)\<rparr>\<rparr>) \<and>
         run lc [MinimizeMedia, RestoreMedia] pg
           = Inr (pg\<lparr>app := (app pg)\<lparr>activeMedia := Some (m\<lparr>mode := Modal\<rparr>)\<rparr>\<rparr>) \<and>
         player (pg\<lparr>app := (app pg)\<lparr>activeMedia := Some (m\<lparr>mode := Minimized\<rparr>)\<rparr>\<rparr>) = Some s \<and>
         player (pg\<lparr>app := (app pg)\<lparr>activeMedia := Some (m\<lparr>mode := Modal\<rparr>)\<rparr>\<rparr>) = Some s \<and>
         (mode m = Modal \<longrightarrow> run lc [MinimizeMedia, RestoreMedia] pg = Inr pg)"
  using assms
  by (simp add: commit_def handleMinimizeMedia_def handleRestoreMedia_def renderPlayer_def)

theorem minimize_restore_preserves_transport_witness:
  "activeMedia (app samplePage)
     = Some \<lparr>post = songAudio, index = 1, mode = Modal, currentTime = Some 0\<rparr> \<and>
   player samplePage = Some \<lparr>isPlaying = False, progress = Some 40, duration = Some 200, currentTime' = 80,
                 resumeAt = Some 0, seeked = None\<rparr> \<and>
   dispatch asciiLowerCase MinimizeMedia samplePage
     = Inr (samplePage\<lparr>app := (app samplePage)\<lparr>activeMedia :=
              Some \<lparr>post = songAudio, index = 1, mode = Minimized, currentTime = Some 0\<rparr>\<rparr>\<rparr>) \<and>
   run asciiLowerCase [MinimizeMedia, RestoreMedia] samplePage = Inr samplePage"
proof -
  have a: "activeMedia (app samplePage)
     = Some \<lparr>post = songAudio, index = 1, mode = Modal, currentTime = Some 0\<rparr>"
    by (simp add: samplePage_def appOf_def)
  have b: "player samplePage
     = Some \<lparr>isPlaying = False, progress = Some 40, duration = Some 200, currentTime' = 80,
                 resumeAt = Some 0, seeked = None\<rparr>"
    by (simp add: samplePage_def)
  from minimize_restore_preserves_transport [OF a b] a b show ?thesis by simp
qed

section \<open>Navigating to another media item\<close>

text \<open>
  Claim C5. With a media item open and the player in any transport state, a step to the
  next or to the previous position that finds a media post with another identifier opens
  it in modal mode with resume time 0, closes the modal, and resets the player: playing,
  elapsed time 0, nothing to resume at and so no seek.
\<close>

theorem navigation_resets_transport:
  assumes "activeMedia (app pg) = Some m" and "player pg = Some s"
    and "L = filteredPosts lc (posts (app pg)) (searchQuery (app pg))"
    and "isMediaPost (type q)" and "post_id q \<noteq> post_id (post m)"
  shows "(index m < int (length L) - 1 \<and> atIndex L (index m + 1) = Some q \<longrightarrow>
            dispatch lc NextItem pg =
              Inr \<lparr>app = (app pg)\<lparr>activeMedia := Some \<lparr>post = q, index = index m + 1, mode = Modal,
                                                       currentTime = Some 0\<rparr>,
                                 activeModal := None\<rparr>,
                   player = Some \<lparr>isPlaying = True, progress = Some 0, duration = Some 0, currentTime' = 0,
                          resumeAt = Some 0, seeked = None\<rparr>\<rparr>) \<and>
         (0 < index m \<and> atIndex L (index m - 1) = Some q \<longrightarrow>
            dispatch lc PrevItem pg =
              Inr \<lparr>app = (app pg)\<lparr>activeMedia := Some \<lparr>post = q, index = index m - 1, mode = Modal,
                                                       currentTime = Some 0\<rparr>,
                                 activeModal := None\<rparr>,
                   player = Some \<lparr>isPlaying = True, progress = Some 0, duration = Some 0, currentTime' = 0,
                          resumeAt = Some 0, seeked = None\<rparr>\<rparr>)"
proof -
  have media: "isMedia q"
    using assms(4) by (auto simp: isMedia_def isMediaPost_def)
  have ci: "currentIndex (app pg) = Some (index m)"
    using assms(1) by (simp add: currentIndex_def)
  have reset: "renderPlayer (Some m) (Some s)
                 (Some \<lparr>post = q, index = i, mode = Modal, currentTime = Some 0\<rparr>)
               = Some \<lparr>isPlaying = True, progress = Some 0, duration = Some 0, currentTime' = 0,
                          resumeAt = Some 0, seeked = None\<rparr>" for i
    using assms(5) media by (simp add: renderPlayer_def setupNewItem_def)
  show ?thesis
    using assms(1,2,3,4) ci reset
    by (simp add: handleNext_def handlePrev_def commitResult_def commit_def showPost_def Let_def)
qed

theorem navigation_resets_transport_witness:
  "dispatch asciiLowerCase NextItem samplePage =
     Inr \<lparr>app = (app samplePage)\<lparr>activeMedia := Some \<lparr>post = clipVideo, index = 2, mode = Modal,
                                                      currentTime = Some 0\<rparr>,
                                activeModal := None\<rparr>,
          player = Some \<lparr>isPlaying = True, progress = Some 0, duration = Some 0, currentTime' = 0,
                          resumeAt = Some 0, seeked = None\<rparr>\<rparr> \<and>
   dispatch asciiLowerCase PrevItem
       (samplePage\<lparr>app := (app samplePage)\<lparr>activeMedia :=
          Some \<lparr>post = clipVideo, index = 2, mode = Minimized, currentTime = Some 12\<rparr>\<rparr>\<rparr>) =
     Inr \<lparr>app = (app samplePage)\<lparr>activeMedia := Some \<lparr>post = songAudio, index = 1, mode = Modal,
                                                      currentTime = Some 0\<rparr>,
                                activeModal := None\<rparr>,
          player = Some \<lparr>isPlaying = True, progress = Some 0, duration = Some 0, currentTime' = 0,
                          resumeAt = Some 0, seeked = None\<rparr>\<rparr>"
proof -
  let ?L = "[sunsetImage, songAudio, clipVideo, memoNote]"
  let ?pg2 = "samplePage\<lparr>app := (app samplePage)\<lparr>activeMedia :=
          Some \<lparr>post = clipVideo, index = 2, mode = Minimized, currentTime = Some 12\<rparr>\<rparr>\<rparr>"
  have a: "activeMedia (app samplePage)
     = Some \<lparr>post = songAudio, index = 1, mode = Modal, currentTime = Some 0\<rparr>"
    by (simp add: samplePage_def appOf_def)
  have b: "player samplePage
     = Some \<lparr>isPlaying = False, progress = Some 40, duration = Some 200, currentTime' = 80,
                 resumeAt = Some 0, seeked = None\<rparr>"
    by (simp add: samplePage_def)
  have l: "?L = filteredPosts asciiLowerCase (posts (app samplePage)) (searchQuery (app samplePage))"
    by (simp add: samplePage_def appOf_def filteredPosts_def units_def)
  have v: "isMediaPost (type clipVideo)"
    by (simp add: sample_defs isMediaPost_def)
  have n: "post_id clipVideo \<noteq> post_id (post \<lparr>post = songAudio, index = 1, mode = Modal, currentTime = Some (0::real)\<rparr>)"
    by (simp add: sample_defs)
  have a2: "activeMedia (app ?pg2)
     = Some \<lparr>post = clipVideo, index = 2, mode = Minimized, currentTime = Some 12\<rparr>"
    by simp
  have b2: "player ?pg2
     = Some \<lparr>isPlaying = False, progress = Some 40, duration = Some 200, currentTime' = 80,
                 resumeAt = Some 0, seeked = None\<rparr>"
    by (simp add: samplePage_def)
  have l2: "?L = filteredPosts asciiLowerCase (posts (app ?pg2)) (searchQuery (app ?pg2))"
    by (simp add: samplePage_def appOf_def filteredPosts_def units_def)
  have v2: "isMediaPost (type songAudio)"
    by (simp add: sample_defs isMediaPost_def)
  have n2: "post_id songAudio \<noteq> post_id (post \<lparr>post = clipVideo, index = 2, mode = Minimized, currentTime = Some (12::real)\<rparr>)"
    by (simp add: sample_defs)
  from navigation_resets_transport [OF a b l v n] navigation_resets_transport [OF a2 b2 l2 v2 n2]
  show ?thesis by (simp add: atIndex_def)
qed


lemma reachable_run: "reachable lc pg \<Longrightarrow> run lc es pg = Inr pg' \<Longrightarrow> reachable lc pg'"
proof (induction es arbitrary: pg)
  case Nil
  then show ?case by simp
next
  case (Cons e es)
  then show ?case
    by (auto split: sum.splits intro: reachable.step)
qed

lemma browsingPage_reachable: "reachable asciiLowerCase browsingPage"
proof -
  have "run asciiLowerCase [PostsLoaded [sunsetImage, songAudio, clipVideo, memoNote], CardClick songAudio, TogglePlay, MinimizeMedia]
     initialPage = Inr browsingPage"
    by (simp add: browsingPage_def sample_defs filter_defs handler_defs page_defs)
  with reachable.init show ?thesis by (rule reachable_run)
qed

lemma browsing_filtered:
  "filteredPosts asciiLowerCase (posts (app browsingPage)) (searchQuery (app browsingPage))
     = [sunsetImage, songAudio, clipVideo, memoNote]"
  by (simp add: browsingPage_def appOf_def filteredPosts_def units_def)

section \<open>How many items are active\<close>

lemma slotsByKind_bounds:
  assumes "slotsByKind st"
  shows "length (filter (\<lambda>x. isMediaPost (type x)) (activeItems st)) \<le> 1 \<and>
         length (filter (\<lambda>x. \<not> isMediaPost (type x)) (activeItems st)) \<le> 1 \<and>
         length (activeItems st) \<le> 2"
  using assms
  by (auto simp: slotsByKind_def activeItems_def displayModes_def split: option.splits)

lemma cardClick_media_single:
  assumes "findIndex (\<lambda>q. post_id q = post_id p) (filteredPosts lc (posts st) (searchQuery st)) \<noteq> -1"
    and "isMediaPost (type p)"
  shows "\<exists>x. activeItems (handleCardClick lc p st) = [x] \<and> post_id x = post_id p"
  using assms
  by (auto simp: handleCardClick_def activeItems_def displayModes_def Let_def split: option.splits)

lemma cardClick_remote_media_single:
  assumes "findIndex (\<lambda>q. post_id q = post_id p) (filteredPosts lc (posts st) (searchQuery st)) \<noteq> -1"
    and "isMediaPost (type p)"
  shows "\<exists>x. activeItems (handleCardClick_remote lc p st) = [x] \<and> post_id x = post_id p"
  using assms
  by (auto simp: handleCardClick_remote_def activeItems_def displayModes_def Let_def
      split: option.splits)

lemma cardClick_other_keeps:
  assumes "findIndex (\<lambda>q. post_id q = post_id p) (filteredPosts lc (posts st) (searchQuery st)) = i"
    and "i \<noteq> -1" and "\<not> isMediaPost (type p)"
  shows "activeModal (handleCardClick lc p st) = Some \<lparr>post = p, index = i\<rparr> \<and>
         activeMedia (handleCardClick lc p st) = activeMedia st"
  using assms by (simp add: handleCardClick_def)

lemma cardClick_remote_other_keeps:
  assumes "findIndex (\<lambda>q. post_id q = post_id p) (filteredPosts lc (posts st) (searchQuery st)) = i"
    and "i \<noteq> -1" and "\<not> isMediaPost (type p)"
  shows "activeModal (handleCardClick_remote lc p st) = Some \<lparr>post = p, index = i\<rparr> \<and>
         map_option post (activeMedia (handleCardClick_remote lc p st)) = map_option post (activeMedia st)"
  using assms
  by (auto simp: handleCardClick_remote_def minimizeIfModal_def split: option.splits)

text \<open>
  Claim C2, as stated, fails: two items are active at once. With the audio post minimized,
  a click on the card of the image opens the image and keeps the player; in the variant
  with the remote query, a step from the video to the note minimizes the video and opens
  the note.
\<close>

theorem two_active_items_counterexample:
  "run asciiLowerCase [PostsLoaded [sunsetImage, songAudio, memoNote], CardClick songAudio, MinimizeMedia, CardClick sunsetImage]
       initialPage
     = Inr \<lparr>app = (appOf [sunsetImage, songAudio, memoNote] [])
                  \<lparr>activeMedia := Some \<lparr>post = songAudio, index = 1, mode = Minimized,
                                        currentTime = Some 0\<rparr>,
                   activeModal := Some \<lparr>post = sunsetImage, index = 0\<rparr>\<rparr>,
            player = Some \<lparr>isPlaying = True, progress = Some 0, duration = Some 0, currentTime' = 0,
                          resumeAt = Some 0, seeked = None\<rparr>\<rparr> \<and>
   run_remote asciiLowerCase [PostsLoaded [clipVideo, memoNote], CardClick clipVideo, NextItem] initialPage
     = Inr \<lparr>app = (appOf [clipVideo, memoNote] [])
                  \<lparr>activeMedia := Some \<lparr>post = clipVideo, index = 0, mode = Minimized,
                                        currentTime = Some 12\<rparr>,
                   activeModal := Some \<lparr>post = memoNote, index = 1\<rparr>\<rparr>,
            player = Some \<lparr>isPlaying = True, progress = Some 0, duration = Some 0, currentTime' = 0,
                          resumeAt = Some 12, seeked = None\<rparr>\<rparr> \<and>
   activeItems ((appOf [sunsetImage, songAudio, memoNote] [])
                  \<lparr>activeMedia := Some \<lparr>post = songAudio, index = 1, mode = Minimized,
                                        currentTime = Some 0\<rparr>,
                   activeModal := Some \<lparr>post = sunsetImage, index = 0\<rparr>\<rparr>) = [songAudio, sunsetImage] \<and>
   activeItems ((appOf [clipVideo, memoNote] [])
                  \<lparr>activeMedia := Some \<lparr>post = clipVideo, index = 0, mode = Minimized,
                                        currentTime = Some 12\<rparr>,
                   activeModal := Some \<lparr>post = memoNote, index = 1\<rparr>\<rparr>) = [clipVideo, memoNote]"
  by (simp add: sample_defs filter_defs handler_defs page_defs activeItems_def displayModes_def)

text \<open>
  Claim C2, amended. On every page reached by card clicks, navigation and the other
  events, in either variant, at most one playable item and at most one item of another
  kind are active, so at most two items. Opening a playable post of the filtered list
  replaces the playable item and closes the modal in one update, which leaves one active
  item; opening a post of another kind replaces the item of the modal in one update and
  keeps the playable item active.
\<close>

theorem one_active_item_per_kind:
  assumes "reachable lc pg \<or> reachable_remote lc pg"
    and "i = findIndex (\<lambda>q. post_id q = post_id p) (filteredPosts lc (posts (app pg)) (searchQuery (app pg)))"
    and "i \<noteq> -1"
  shows
    "length (filter (\<lambda>x. isMediaPost (type x)) (activeItems (app pg))) \<le> 1 \<and>
     length (filter (\<lambda>x. \<not> isMediaPost (type x)) (activeItems (app pg))) \<le> 1 \<and>
     length (activeItems (app pg)) \<le> 2 \<and>
     (isMediaPost (type p) \<longrightarrow>
        (\<exists>x. activeItems (handleCardClick lc p (app pg)) = [x] \<and> post_id x = post_id p) \<and>
        (\<exists>x. activeItems (handleCardClick_remote lc p (app pg)) = [x] \<and> post_id x = post_id p)) \<and>
     (\<not> isMediaPost (type p) \<longrightarrow>
        activeModal (handleCardClick lc p (app pg)) = Some \<lparr>post = p, index = i\<rparr> \<and>
        activeMedia (handleCardClick lc p (app pg)) = activeMedia (app pg) \<and>
        activeModal (handleCardClick_remote lc p (app pg)) = Some \<lparr>post = p, index = i\<rparr> \<and>
        map_option post (activeMedia (handleCardClick_remote lc p (app pg)))
          = map_option post (activeMedia (app pg)))"
proof -
  from assms(1) have "pageOk pg"
    by (auto intro: reachable_ok reachable_remote_ok)
  then have k: "slotsByKind (app pg)" by (simp add: pageOk_def)
  note ix = assms(2) [symmetric]
  from assms(3) ix
  have ne: "findIndex (\<lambda>q. post_id q = post_id p) (filteredPosts lc (posts (app pg)) (searchQuery (app pg))) \<noteq> -1"
    by simp
  show ?thesis
    using slotsByKind_bounds [OF k] cardClick_media_single [OF ne]
      cardClick_remote_media_single [OF ne] cardClick_other_keeps [OF ix assms(3)]
      cardClick_remote_other_keeps [OF ix assms(3)]
    by simp
qed

theorem one_active_item_per_kind_witness:
  "reachable asciiLowerCase browsingPage \<and>
   activeItems (app browsingPage) = [songAudio] \<and>
   activeModal (handleCardClick asciiLowerCase memoNote (app browsingPage)) = Some \<lparr>post = memoNote, index = 3\<rparr> \<and>
   activeMedia (handleCardClick asciiLowerCase memoNote (app browsingPage)) = activeMedia (app browsingPage) \<and>
   (\<exists>x. activeItems (handleCardClick asciiLowerCase clipVideo (app browsingPage)) = [x] \<and> post_id x = post_id clipVideo)"
proof -
  have r: "reachable asciiLowerCase browsingPage \<or> reachable_remote asciiLowerCase browsingPage"
    by (simp add: browsingPage_reachable)
  have inn: "3 = findIndex (\<lambda>q. post_id q = post_id memoNote)
                  (filteredPosts asciiLowerCase (posts (app browsingPage)) (searchQuery (app browsingPage)))"
    by (simp add: browsing_filtered) (simp add: sample_defs)
  have iv: "2 = findIndex (\<lambda>q. post_id q = post_id clipVideo)
                  (filteredPosts asciiLowerCase (posts (app browsingPage)) (searchQuery (app browsingPage)))"
    by (simp add: browsing_filtered) (simp add: sample_defs)
  have kinds: "isMediaPost (type clipVideo)" "\<not> isMediaPost (type memoNote)"
    by (simp_all add: sample_defs isMediaPost_def)
  have items: "activeItems (app browsingPage) = [songAudio]"
    by (simp add: browsingPage_def appOf_def activeItems_def displayModes_def)
  from one_active_item_per_kind [OF r inn] one_active_item_per_kind [OF r iv] kinds items
    browsingPage_reachable
  show ?thesis by simp
qed


section \<open>Which items can be minimized\<close>

lemma minimize_keeps_modal: "activeModal (handleMinimizeMedia st) = activeModal st"
  by (simp add: handleMinimizeMedia_def)

lemma minimize_without_media: "activeMedia st = None \<Longrightarrow> handleMinimizeMedia st = st"
  by (simp add: handleMinimizeMedia_def)

lemma slotsByKind_modes:
  assumes "slotsByKind st" and "(x, md) \<in> set (displayModes st)"
  shows "(md = Minimized \<longrightarrow> isMediaPost (type x)) \<and> (\<not> isMediaPost (type x) \<longrightarrow> md = Modal)"
  using assms
  by (auto simp: slotsByKind_def displayModes_def split: option.splits)

text \<open>
  Claim C8. On every reachable lc page an item displayed minimized is playable, and an item
  that is not playable is displayed full-screen. Opening a post of the filtered list that
  is not playable and then minimizing leaves that post the item of the modal, full-screen
  and not minimized; with no media item active, minimizing changes nothing at all.
\<close>

theorem minimized_only_playable:
  assumes "reachable lc pg"
  shows
    "(\<forall>(x, md) \<in> set (displayModes (app pg)). md = Minimized \<longrightarrow> isMediaPost (type x)) \<and>
     (\<forall>(x, md) \<in> set (displayModes (app pg)). \<not> isMediaPost (type x) \<longrightarrow> md = Modal) \<and>
     (\<not> isMediaPost (type p) \<and>
      findIndex (\<lambda>q. post_id q = post_id p) (filteredPosts lc (posts (app pg)) (searchQuery (app pg))) = i \<and>
      i \<noteq> -1 \<longrightarrow>
        (\<exists>pg1 pg2. dispatch lc (CardClick p) pg = Inr pg1 \<and> dispatch lc MinimizeMedia pg1 = Inr pg2 \<and>
           activeModal (app pg1) = Some \<lparr>post = p, index = i\<rparr> \<and>
           activeModal (app pg2) = Some \<lparr>post = p, index = i\<rparr> \<and>
           (p, Modal) \<in> set (displayModes (app pg2)) \<and>
           (p, Minimized) \<notin> set (displayModes (app pg2)) \<and>
           (activeMedia (app pg) = None \<longrightarrow> pg2 = pg1)))"
proof -
  from assms have ok: "pageOk pg"
    by (rule reachable_ok)
  then have k: "slotsByKind (app pg)" and mt: "mounted pg" by (simp_all add: pageOk_def)
  have modes: "\<forall>(x, md) \<in> set (displayModes (app pg)).
      (md = Minimized \<longrightarrow> isMediaPost (type x)) \<and> (\<not> isMediaPost (type x) \<longrightarrow> md = Modal)"
    using slotsByKind_modes [OF k] by blast
  have opened: "\<exists>pg1 pg2. dispatch lc (CardClick p) pg = Inr pg1 \<and> dispatch lc MinimizeMedia pg1 = Inr pg2 \<and>
           activeModal (app pg1) = Some \<lparr>post = p, index = i\<rparr> \<and>
           activeModal (app pg2) = Some \<lparr>post = p, index = i\<rparr> \<and>
           (p, Modal) \<in> set (displayModes (app pg2)) \<and>
           (p, Minimized) \<notin> set (displayModes (app pg2)) \<and>
           (activeMedia (app pg) = None \<longrightarrow> pg2 = pg1)"
    if np: "\<not> isMediaPost (type p)"
      and ix: "findIndex (\<lambda>q. post_id q = post_id p)
                 (filteredPosts lc (posts (app pg)) (searchQuery (app pg))) = i"
      and ne: "i \<noteq> -1"
  proof -
    define pg1 where "pg1 = commit pg (handleCardClick lc p (app pg))"
    define pg2 where "pg2 = commit pg1 (handleMinimizeMedia (app pg1))"
    have a1: "app pg1 = (app pg)\<lparr>activeModal := Some \<lparr>post = p, index = i\<rparr>\<rparr>"
      using np ix ne by (simp add: pg1_def app_commit handleCardClick_def)
    have ok1: "pageOk pg1"
      unfolding pg1_def by (rule pageOk_commit) (rule slotsByKind_cardClick [OF k])
    have a2: "app pg2 = handleMinimizeMedia (app pg1)"
      by (simp add: pg2_def app_commit)
    from ok1 have "slotsByKind (app pg1)" by (simp add: pageOk_def)
    then have "slotsByKind (handleMinimizeMedia (app pg1))" by (rule slotsByKind_others)
    then have ok2: "pageOk pg2"
      unfolding pg2_def by (rule pageOk_commit)
    have m2: "activeModal (app pg2) = Some \<lparr>post = p, index = i\<rparr>"
      by (simp add: a2 a1 minimize_keeps_modal)
    then have shown: "(p, Modal) \<in> set (displayModes (app pg2))"
      by (simp add: displayModes_def)
    have hidden: "(p, Minimized) \<notin> set (displayModes (app pg2))"
    proof
      assume "(p, Minimized) \<in> set (displayModes (app pg2))"
      with ok2 have "isMediaPost (type p)"
        using slotsByKind_modes [of "app pg2" p Minimized] by (simp add: pageOk_def)
      with np show False by simp
    qed
    have same: "pg2 = pg1" if "activeMedia (app pg) = None"
    proof -
      from that a1 have "activeMedia (app pg1) = None" by simp
      then have "handleMinimizeMedia (app pg1) = app pg1" by (rule minimize_without_media)
      moreover from ok1 have "mounted pg1" by (simp add: pageOk_def)
      ultimately show ?thesis
        by (simp add: pg2_def commit_def renderPlayer_same)
    qed
    have "dispatch lc (CardClick p) pg = Inr pg1" by (simp add: pg1_def)
    moreover have "dispatch lc MinimizeMedia pg1 = Inr pg2" by (simp add: pg2_def)
    ultimately show ?thesis
      using a1 m2 shown hidden same by auto
  qed
  from modes opened show ?thesis by blast
qed


theorem minimized_only_playable_witness:
  "reachable asciiLowerCase browsingPage \<and>
   displayModes (app browsingPage) = [(songAudio, Minimized)] \<and>
   isMediaPost (type songAudio) \<and> \<not> isMediaPost (type memoNote) \<and>
   (\<exists>pg1 pg2. dispatch asciiLowerCase (CardClick memoNote) browsingPage = Inr pg1 \<and>
      dispatch asciiLowerCase MinimizeMedia pg1 = Inr pg2 \<and>
      activeModal (app pg2) = Some \<lparr>post = memoNote, index = 3\<rparr> \<and>
      (memoNote, Modal) \<in> set (displayModes (app pg2)) \<and>
      (memoNote, Minimized) \<notin> set (displayModes (app pg2)))"
proof -
  have inn: "findIndex (\<lambda>q. post_id q = post_id memoNote)
               (filteredPosts asciiLowerCase (posts (app browsingPage)) (searchQuery (app browsingPage))) = 3"
    by (simp add: browsing_filtered) (simp add: sample_defs)
  have nn: "\<not> isMediaPost (type memoNote)"
    by (simp add: sample_defs isMediaPost_def)
  have dm: "displayModes (app browsingPage) = [(songAudio, Minimized)]"
    by (simp add: browsingPage_def appOf_def displayModes_def)
  from minimized_only_playable [OF browsingPage_reachable, of memoNote 3] inn nn dm
    browsingPage_reachable
  show ?thesis by simp
qed

section \<open>The two variants\<close>

text \<open>
  From the audio post open full-screen, a step to the note: the variant with the remote
  query minimizes the player, as its comment says (\<^verbatim>\<open>If a media post is in modal mode,
  minimize it\<close>).
\<close>

lemma remote_variant_keeps_one_fullscreen:
  "run_remote asciiLowerCase [PostsLoaded [songAudio, memoNote], CardClick songAudio, NextItem] initialPage
     = Inr \<lparr>app = (appOf [songAudio, memoNote] [])
                  \<lparr>activeMedia := Some \<lparr>post = songAudio, index = 0, mode = Minimized,
                                        currentTime = Some 0\<rparr>,
                   activeModal := Some \<lparr>post = memoNote, index = 1\<rparr>\<rparr>,
            player = Some \<lparr>isPlaying = True, progress = Some 0, duration = Some 0, currentTime' = 0,
                          resumeAt = Some 0, seeked = None\<rparr>\<rparr>"
  by (simp add: sample_defs filter_defs handler_defs page_defs)

text \<open>
  Claim C9 asks that the handlers of the two variants give the same state. On the same
  step the variant with the local fixture leaves the player in modal mode under the
  modal, so the two results differ.
\<close>

theorem variants_differ_on_next:
  "run asciiLowerCase [PostsLoaded [songAudio, memoNote], CardClick songAudio, NextItem] initialPage
     = Inr \<lparr>app = (appOf [songAudio, memoNote] [])
                  \<lparr>activeMedia := Some \<lparr>post = songAudio, index = 0, mode = Modal,
                                        currentTime = Some 0\<rparr>,
                   activeModal := Some \<lparr>post = memoNote, index = 1\<rparr>\<rparr>,
            player = Some \<lparr>isPlaying = True, progress = Some 0, duration = Some 0, currentTime' = 0,
                          resumeAt = Some 0, seeked = None\<rparr>\<rparr> \<and>
   run asciiLowerCase [PostsLoaded [songAudio, memoNote], CardClick songAudio, NextItem] initialPage
     \<noteq> run_remote asciiLowerCase [PostsLoaded [songAudio, memoNote], CardClick songAudio, NextItem] initialPage"
  unfolding remote_variant_keeps_one_fullscreen
  by (simp add: sample_defs filter_defs handler_defs page_defs)

text \<open>Without an active media item and from a position of the list, the two variants agree.\<close>

lemma variants_agree_without_media:
  assumes "activeMedia st = None"
  shows "handleCardClick lc p st = handleCardClick_remote lc p st"
    and "activeModal st = Some d \<Longrightarrow> 0 \<le> index d \<Longrightarrow>
         index d \<le> int (length (filteredPosts lc (posts st) (searchQuery st))) \<Longrightarrow>
         handleNext lc st = handleNext_remote lc st \<and> handlePrev lc st = handlePrev_remote lc st"
    and "activeModal st = None \<Longrightarrow>
         handleNext lc st = handleNext_remote lc st \<and> handlePrev lc st = handlePrev_remote lc st"
  using assms
  by (auto simp: handleCardClick_def handleCardClick_remote_def minimizeIfModal_def
      handleNext_def handlePrev_def handleNext_remote_def handlePrev_remote_def handleNavigate_def
      currentIndex_def currentItemIndex_def showPost_def atIndex_def Let_def)

section \<open>A step forward and a step back\<close>

text \<open>
  In the variant with the remote query a step forward from a position inside the list and
  a step back return to the position and open its post again.
\<close>

lemma remote_roundtrip:
  assumes "currentItemIndex st = Some p"
    and "L = filteredPosts lc (posts st) (searchQuery st)"
    and "0 \<le> p" and "p < int (length L) - 1"
  shows "\<exists>st1 st2. handleNext_remote lc st = Inr st1 \<and> currentItemIndex st1 = Some (p + 1) \<and>
           handlePrev_remote lc st1 = Inr st2 \<and> currentItemIndex st2 = Some p \<and>
           (if isMediaPost (type (L ! nat p))
            then map_option post (activeMedia st2) = Some (L ! nat p) \<and> activeModal st2 = None
            else map_option post (activeModal st2) = Some (L ! nat p))"
proof -
  define st1 where "st1 = (if isMediaPost (type (L ! nat (p + 1)))
      then st\<lparr>activeMedia := Some \<lparr>post = L ! nat (p + 1), index = p + 1, mode = Modal,
                                     currentTime = Some 0\<rparr>, activeModal := None\<rparr>
      else minimizeIfModal (st\<lparr>activeModal := Some \<lparr>post = L ! nat (p + 1), index = p + 1\<rparr>\<rparr>))"
  have n: "handleNext_remote lc st = Inr st1"
    using assms by (simp add: handleNext_remote_def handleNavigate_def atIndex_def st1_def Let_def)
  have c1: "currentItemIndex st1 = Some (p + 1)"
    by (auto simp: st1_def currentItemIndex_def minimizeIfModal_def split: option.splits)
  have l1: "filteredPosts lc (posts st1) (searchQuery st1) = L"
    using assms(2) by (auto simp: st1_def minimizeIfModal_def split: option.splits)
  define st2 where "st2 = (if isMediaPost (type (L ! nat p))
      then st1\<lparr>activeMedia := Some \<lparr>post = L ! nat p, index = p, mode = Modal,
                                     currentTime = Some 0\<rparr>, activeModal := None\<rparr>
      else minimizeIfModal (st1\<lparr>activeModal := Some \<lparr>post = L ! nat p, index = p\<rparr>\<rparr>))"
  have pr: "handlePrev_remote lc st1 = Inr st2"
    using assms(3,4) c1 l1
    by (simp add: handlePrev_remote_def handleNavigate_def atIndex_def st2_def Let_def)
  have c2: "currentItemIndex st2 = Some p"
    by (auto simp: st2_def currentItemIndex_def minimizeIfModal_def split: option.splits)
  have shown: "if isMediaPost (type (L ! nat p))
            then map_option post (activeMedia st2) = Some (L ! nat p) \<and> activeModal st2 = None
            else map_option post (activeModal st2) = Some (L ! nat p)"
    by (auto simp: st2_def minimizeIfModal_def split: option.splits)
  from n c1 pr c2 shown show ?thesis by blast
qed


lemma remote_next_then_prev_returns:
  "run_remote asciiLowerCase [PostsLoaded [sunsetImage, songAudio, memoNote], CardClick songAudio, NextItem, PrevItem] initialPage
     = run_remote asciiLowerCase [PostsLoaded [sunsetImage, songAudio, memoNote], CardClick songAudio] initialPage"
  by (simp add: sample_defs filter_defs handler_defs page_defs)

text \<open>
  Claim C7 asks that a step forward from a position and a step back return to it. In the
  variant with the local fixture, from the audio post at position 1 the step forward
  opens the note at position 2 and leaves the audio post in \<^verbatim>\<open>activeMedia\<close>; the step back
  reads the index of \<^verbatim>\<open>activeMedia\<close> first, so it starts from 1 and opens the image at
  position 0.
\<close>

theorem next_then_prev_does_not_return:
  "run asciiLowerCase [PostsLoaded [sunsetImage, songAudio, memoNote], CardClick songAudio] initialPage
     = Inr \<lparr>app = (appOf [sunsetImage, songAudio, memoNote] [])
                  \<lparr>activeMedia := Some \<lparr>post = songAudio, index = 1, mode = Modal,
                                        currentTime = Some 0\<rparr>\<rparr>,
            player = Some \<lparr>isPlaying = True, progress = Some 0, duration = Some 0, currentTime' = 0,
                          resumeAt = Some 0, seeked = None\<rparr>\<rparr> \<and>
   run asciiLowerCase [PostsLoaded [sunsetImage, songAudio, memoNote], CardClick songAudio, NextItem] initialPage
     = Inr \<lparr>app = (appOf [sunsetImage, songAudio, memoNote] [])
                  \<lparr>activeMedia := Some \<lparr>post = songAudio, index = 1, mode = Modal,
                                        currentTime = Some 0\<rparr>,
                   activeModal := Some \<lparr>post = memoNote, index = 2\<rparr>\<rparr>,
            player = Some \<lparr>isPlaying = True, progress = Some 0, duration = Some 0, currentTime' = 0,
                          resumeAt = Some 0, seeked = None\<rparr>\<rparr> \<and>
   run asciiLowerCase [PostsLoaded [sunsetImage, songAudio, memoNote], CardClick songAudio, NextItem, PrevItem] initialPage
     = Inr \<lparr>app = (appOf [sunsetImage, songAudio, memoNote] [])
                  \<lparr>activeMedia := Some \<lparr>post = songAudio, index = 1, mode = Modal,
                                        currentTime = Some 0\<rparr>,
                   activeModal := Some \<lparr>post = sunsetImage, index = 0\<rparr>\<rparr>,
            player = Some \<lparr>isPlaying = True, progress = Some 0, duration = Some 0, currentTime' = 0,
                          resumeAt = Some 0, seeked = None\<rparr>\<rparr>"
  by (simp add: sample_defs filter_defs handler_defs page_defs)



end
